theory Spec2Isabelle
  imports Main
begin

section \<open>Module constants of jumping\_task.py\<close>

text \<open>
  Positions, sizes and speeds are Python integers in every configuration the repository
  builds (the defaults, the argparse options of type int, the allowed obstacle positions),
  so they are modelled as \<open>int\<close>.
\<close>

definition JUMP_HEIGHT :: int where "JUMP_HEIGHT = 15"
definition JUMP_VERTICAL_SPEED :: int where "JUMP_VERTICAL_SPEED = 1"
definition JUMP_HORIZONTAL_SPEED :: int where "JUMP_HORIZONTAL_SPEED = 1"

definition OBSTACLE_1 :: int where "OBSTACLE_1 = 20"
definition OBSTACLE_2 :: int where "OBSTACLE_2 = 55"
definition ALLOWED_OBSTACLE_X :: "int list" where "ALLOWED_OBSTACLE_X = [20, 30, 40]"
definition ALLOWED_OBSTACLE_Y :: "int list" where "ALLOWED_OBSTACLE_Y = [10, 20]"
definition LEFT :: int where "LEFT = 14"
definition RIGHT :: int where "RIGHT = 48"
definition DOWN :: int where "DOWN = 0"
definition UP :: int where "UP = 41"

section \<open>The environment object\<close>

text \<open>
  The exceptions the code can raise. Both range checks of \<open>_reset\<close> and the action check of
  \<open>step\<close> raise Python's ValueError (the specification calls them OutOfRangeConfiguration
  and IllegalAction); the argument records the raising statement. KeyError is what a lookup
  of a missing key in the info dictionary raises.
\<close>

datatype raise_site = ObstacleXRange | FloorHeightRange | UnrecognizedAction

datatype error = ValueError raise_site | KeyError string

text \<open>The second component of \<open>self.jumping\<close> is None, "up" or "down".\<close>

datatype jump_dir = Up | Down

text \<open>\<open>gym.spaces.Box\<close>, as far as the code fills it in: bounds and shape.\<close>

datatype bound = Scalar int | Array "int list"

record box =
  box_low :: bound
  box_high :: bound
  box_shape :: "nat list"

text \<open>
  The attributes of a \<open>JumpTaskEnv\<close> instance. The dictionary \<open>self.rewards\<close> has the fixed
  keys 'life' and 'exit' and is a pair of fields. The attribute \<open>done\<close> is the field
  \<open>done_flag\<close>. The random generator and the rendering attributes (rendering, zoom, screen,
  slow\_motion) are left out: rendering draws and sleeps but writes no attribute.
\<close>

record env =
  rewards_life :: int
  rewards_exit :: int
  scr_w :: int
  scr_h :: int
  state_shape :: "nat list"
  legal_actions :: "int list"
  nb_actions :: nat
  agent_speed :: int
  agent_current_speed :: int
  jumping :: "bool \<times> jump_dir option"
  agent_init_pos :: int
  agent_size :: "int \<times> int"
  obstacle_size :: "int \<times> int"
  step_id :: int
  max_number_of_steps :: int
  finish_jump :: bool
  min_x_position :: int
  max_x_position :: int
  min_y_position :: int
  max_y_position :: int
  observation_space :: box
  agent_pos_x :: int
  agent_pos_y :: int
  done_flag :: bool
  floor_height :: int
  two_obstacles :: bool
  obstacle_position :: int

text \<open>The subclass \<open>JumpTaskEnvWithColors\<close> adds three attributes.\<close>

datatype COLORS = RED | GREEN

record env_colors = env +
  obstacle_color :: COLORS
  rewards_collision :: int
  already_collided :: bool

section \<open>JumpTaskEnv\<close>

subsection \<open>\<open>_game_status\<close>\<close>

definition overlapping_objects :: "'a env_scheme \<Rightarrow> int \<Rightarrow> int \<Rightarrow> bool" where
  "overlapping_objects e sx sy \<longleftrightarrow>
     sx + fst (obstacle_size e) > agent_pos_x e \<and> sx < agent_pos_x e + fst (agent_size e)
     \<and> sy + snd (obstacle_size e) > agent_pos_y e \<and> sy < agent_pos_y e + snd (agent_size e)"

text \<open>Returns \<open>(failure, success)\<close> and the object with \<open>done\<close> written.\<close>

definition game_status :: "'a env_scheme \<Rightarrow> (bool \<times> bool) \<times> 'a env_scheme" where
  "game_status s =
     (let failure =
            (if two_obstacles s
             then overlapping_objects s OBSTACLE_1 (floor_height s)
                  \<or> overlapping_objects s OBSTACLE_2 (floor_height s)
             else overlapping_objects s (obstacle_position s) (floor_height s));
          success = (scr_w s < agent_pos_x s + fst (agent_size s))
      in ((failure, success), s\<lparr>done_flag := (failure \<or> success)\<rparr>))"

subsection \<open>\<open>_continue_jump\<close>\<close>

definition continue_jump :: "'a env_scheme \<Rightarrow> 'a env_scheme" where
  "continue_jump s =
     (let s1 = s\<lparr>agent_pos_x := max (agent_pos_x s + agent_current_speed s) 0\<rparr>;
          s2 = (if agent_pos_y s1 > floor_height s1 + JUMP_HEIGHT
                then s1\<lparr>jumping := (fst (jumping s1), Some Down)\<rparr> else s1)
      in if snd (jumping s2) = Some Up
         then s2\<lparr>agent_pos_y := agent_pos_y s2 + agent_speed s2 * JUMP_VERTICAL_SPEED\<rparr>
         else if snd (jumping s2) = Some Down
         then (let s3 = s2\<lparr>agent_pos_y := agent_pos_y s2 - agent_speed s2 * JUMP_VERTICAL_SPEED\<rparr>
               in if agent_pos_y s3 = floor_height s3
                  then s3\<lparr>jumping := (False, snd (jumping s3))\<rparr> else s3)
         else s2)"

subsection \<open>\<open>_reset\<close>, \<open>reset\<close> and \<open>close\<close>\<close>

text \<open>
  Every method that ends in \<open>return self.get_state(), ...\<close> is modelled by the rest of its
  result and the object it leaves behind: \<open>get_state\<close> reads attributes and writes none, so
  the observation of a call is \<open>get_state\<close> of the returned object. The two raster encoders
  (numpy drawing) are not modelled; the coordinate encoder is, below.

  A raised exception leaves the object as it is at the raise, so the error case carries the
  object as well. The method \<open>_reset\<close> is named \<open>reset_internal\<close>.
\<close>

definition reset_internal ::
  "'a env_scheme \<Rightarrow> int \<Rightarrow> int \<Rightarrow> bool \<Rightarrow> (error + unit) \<times> 'a env_scheme" where
  "reset_internal s obstacle_pos floor_h two_obs =
     (let s1 = s\<lparr>agent_pos_x := agent_init_pos s,
                 agent_pos_y := floor_h,
                 agent_current_speed := agent_speed s * JUMP_HORIZONTAL_SPEED,
                 jumping := (False, None),
                 step_id := 0,
                 done_flag := False,
                 floor_height := floor_h,
                 two_obstacles := two_obs\<rparr>
      in if two_obs then (Inr (), s1)
         else if obstacle_pos < min_x_position s1 \<or> obstacle_pos \<ge> max_x_position s1
         then (Inl (ValueError ObstacleXRange), s1)
         else if floor_h < min_y_position s1 \<or> floor_h \<ge> max_y_position s1
         then (Inl (ValueError FloorHeightRange), s1)
         else (Inr (), s1\<lparr>obstacle_position := obstacle_pos\<rparr>))"

text \<open>
  \<open>reset\<close> draws the obstacle position and the floor height with \<open>np_random.choice\<close>; the
  indices drawn are the parameters \<open>ix\<close> and \<open>iy\<close> (\<open>ix < 3\<close>, \<open>iy < 2\<close>).
\<close>

definition reset :: "'a env_scheme \<Rightarrow> nat \<Rightarrow> nat \<Rightarrow> (error + unit) \<times> 'a env_scheme" where
  "reset s ix iy = reset_internal s (ALLOWED_OBSTACLE_X ! ix) (ALLOWED_OBSTACLE_Y ! iy) False"

definition close :: "'a env_scheme \<Rightarrow> 'a env_scheme" where
  "close s = s\<lparr>done_flag := True\<rparr>"

subsection \<open>\<open>step\<close>\<close>

text \<open>The info dictionary is \<open>{}\<close> or \<open>{'collision': killed}\<close>.\<close>

type_synonym info = "string \<rightharpoonup> bool"

text \<open>
  The loop of \<open>finish_jump\<close> mode. Nothing in the code bounds it (with \<open>agent_speed = 0\<close> the
  agent never lands), so it returns an option: \<open>None\<close> is a loop that runs forever. The
  method \<open>_game_status\<close> is overridden by the color variant and called through \<open>self\<close>, so it
  is a parameter.
\<close>

partial_function (option) finish_jump_loop ::
  "('a env_scheme \<Rightarrow> (bool \<times> bool) \<times> 'a env_scheme) \<Rightarrow> 'a env_scheme \<Rightarrow> bool \<times> bool
     \<Rightarrow> ((bool \<times> bool) \<times> 'a env_scheme) option" where
  "finish_jump_loop gs s ke =
     (if fst (jumping s) \<and> \<not> fst ke \<and> \<not> snd ke
      then (case gs (continue_jump s) of (ke', s') \<Rightarrow> finish_jump_loop gs s' ke')
      else Some (ke, s))"

text \<open>The state change that the action selects (lines 309 to 322).\<close>

definition apply_action :: "'a env_scheme \<Rightarrow> int \<Rightarrow> 'a env_scheme" where
  "apply_action s action =
     (if fst (jumping s) then continue_jump s
      else if action = 0
      then s\<lparr>agent_pos_x := agent_pos_x s + agent_speed s,
             agent_current_speed := agent_speed s * JUMP_HORIZONTAL_SPEED\<rparr>
      else if action = 1
      then continue_jump (s\<lparr>jumping := (True, Some Up)\<rparr>)
      else if action = 2
      then (if agent_pos_x s > 0
            then s\<lparr>agent_pos_x := agent_pos_x s - agent_speed s,
                   agent_current_speed := - agent_speed s * JUMP_HORIZONTAL_SPEED\<rparr>
            else s\<lparr>agent_current_speed := 0\<rparr>)
      else s)"

text \<open>The reward computed after the loop (lines 332 to 336).\<close>

definition step_reward :: "'a env_scheme \<Rightarrow> int \<Rightarrow> bool \<Rightarrow> bool \<Rightarrow> int" where
  "step_reward s reward0 killed exited =
     (let reward = reward0 + agent_pos_x s
      in if killed then rewards_life s
         else if exited then reward + rewards_exit s
         else reward)"

text \<open>
  \<open>JumpTaskEnv.step\<close> with the dispatch of \<open>self._game_status\<close> explicit. The result is
  \<open>(reward, done, info)\<close>; the reward \<open>0.\<close> of the exhausted branch is the integer 0.
\<close>

definition step_impl ::
  "('a env_scheme \<Rightarrow> (bool \<times> bool) \<times> 'a env_scheme) \<Rightarrow> 'a env_scheme \<Rightarrow> int
     \<Rightarrow> ((error + int \<times> bool \<times> info) \<times> 'a env_scheme) option" where
  "step_impl gs s action =
     (let reward = - agent_pos_x s
      in if step_id s > max_number_of_steps s
         then (let s1 = s\<lparr>done_flag := True\<rparr>
               in Some (Inr (0, done_flag s1, Map.empty), s1))
         else if action \<notin> set (legal_actions s)
         then Some (Inl (ValueError UnrecognizedAction), s)
         else
           (case gs (apply_action s action) of (ke, s2) \<Rightarrow>
              (case (if finish_jump s2 then finish_jump_loop gs s2 ke else Some (ke, s2)) of
                 None \<Rightarrow> None
               | Some ((killed, exited), s3) \<Rightarrow>
                   (let r = step_reward s3 reward killed exited;
                        s4 = s3\<lparr>step_id := step_id s3 + 1\<rparr>
                    in Some (Inr (r, done_flag s4, [''collision'' \<mapsto> killed]), s4)))))"

definition step ::
  "'a env_scheme \<Rightarrow> int \<Rightarrow> ((error + int \<times> bool \<times> info) \<times> 'a env_scheme) option" where
  "step = step_impl game_status"

subsection \<open>The constructor\<close>

text \<open>
  The keyword arguments of \<open>__init__\<close> that the modelled attributes depend on, and the three
  (\<open>floor_height\<close>, \<open>obstacle_position\<close>, \<open>two_obstacles\<close>) that its body never reads.
\<close>

record kwargs =
  kw_scr_w :: int
  kw_scr_h :: int
  kw_floor_height :: int
  kw_agent_w :: int
  kw_agent_h :: int
  kw_agent_init_pos :: int
  kw_agent_speed :: int
  kw_obstacle_position :: int
  kw_obstacle_size :: "int \<times> int"
  kw_with_left_action :: bool
  kw_max_number_of_steps :: int
  kw_two_obstacles :: bool
  kw_finish_jump :: bool

definition default_kwargs :: kwargs where
  "default_kwargs =
     \<lparr>kw_scr_w = 60, kw_scr_h = 60, kw_floor_height = 10, kw_agent_w = 5, kw_agent_h = 10,
      kw_agent_init_pos = 0, kw_agent_speed = 1, kw_obstacle_position = 30,
      kw_obstacle_size = (9, 10), kw_with_left_action = False, kw_max_number_of_steps = 600,
      kw_two_obstacles = False, kw_finish_jump = False\<rparr>"

text \<open>
  The attributes assigned before \<open>self.reset()\<close> is called. The six attributes that only
  \<open>_reset\<close> assigns do not exist yet in Python; here they hold 0 and False until the reset
  that ends the constructor writes them (it writes all six: it is a single-obstacle reset
  with an allowed position and floor height). \<open>ext\<close> is the part a subclass adds.
\<close>

definition init_attrs :: "kwargs \<Rightarrow> bool \<Rightarrow> 'a \<Rightarrow> 'a env_scheme" where
  "init_attrs kw use_colors ext =
     (let shape = (if use_colors then [nat (kw_scr_w kw), nat (kw_scr_h kw), 3]
                   else [nat (kw_scr_w kw), nat (kw_scr_h kw)]);
          legal = (if kw_with_left_action kw then [0, 1, 2] else [0, 1])
      in \<lparr>rewards_life = - 1, rewards_exit = 100,
          scr_w = kw_scr_w kw, scr_h = kw_scr_h kw,
          state_shape = shape,
          legal_actions = legal, nb_actions = length legal,
          agent_speed = kw_agent_speed kw,
          agent_current_speed = kw_agent_speed kw * JUMP_HORIZONTAL_SPEED,
          jumping = (False, None),
          agent_init_pos = kw_agent_init_pos kw,
          agent_size = (kw_agent_w kw, kw_agent_h kw),
          obstacle_size = kw_obstacle_size kw,
          step_id = 0,
          max_number_of_steps = kw_max_number_of_steps kw,
          finish_jump = kw_finish_jump kw,
          min_x_position = LEFT, max_x_position = RIGHT,
          min_y_position = DOWN, max_y_position = UP,
          observation_space = \<lparr>box_low = Scalar 0, box_high = Scalar 1, box_shape = shape\<rparr>,
          agent_pos_x = 0, agent_pos_y = 0, done_flag = False, floor_height = 0,
          two_obstacles = False, obstacle_position = 0,
          \<dots> = ext\<rparr>)"

definition JumpTaskEnv :: "kwargs \<Rightarrow> nat \<Rightarrow> nat \<Rightarrow> error + env" where
  "JumpTaskEnv kw ix iy =
     (case reset (init_attrs kw False ()) ix iy of
        (Inl e, _) \<Rightarrow> Inl e
      | (Inr _, s) \<Rightarrow> Inr s)"

section \<open>JumpTaskEnvWithCoordinates\<close>

text \<open>
  The subclass overrides \<open>get_state\<close> and, after the base constructor, the attributes
  \<open>state_shape\<close> and \<open>observation_space\<close>; \<open>_reset\<close>, \<open>step\<close> and \<open>_game_status\<close> are inherited.
  The shape of a Box built from two bound arrays is the shape of the arrays.
\<close>

definition get_state_coordinates :: "'a env_scheme \<Rightarrow> int list" where
  "get_state_coordinates s =
     [agent_pos_x s - obstacle_position s, agent_pos_y s - floor_height s]"

definition JumpTaskEnvWithCoordinates :: "kwargs \<Rightarrow> nat \<Rightarrow> nat \<Rightarrow> error + env" where
  "JumpTaskEnvWithCoordinates kw ix iy =
     (case JumpTaskEnv kw ix iy of
        Inl e \<Rightarrow> Inl e
      | Inr s \<Rightarrow>
          (let low = [1 - RIGHT, 0]; high = [56 - LEFT, 16]
           in Inr (s\<lparr>state_shape := [3],
                     observation_space :=
                       \<lparr>box_low = Array low, box_high = Array high,
                        box_shape = [length low]\<rparr>\<rparr>)))"

definition reset_internal_coordinates ::
  "env \<Rightarrow> int \<Rightarrow> int \<Rightarrow> bool \<Rightarrow> (error + int list) \<times> env" where
  "reset_internal_coordinates s obstacle_pos floor_h two_obs =
     (case reset_internal s obstacle_pos floor_h two_obs of
        (Inl e, s') \<Rightarrow> (Inl e, s')
      | (Inr _, s') \<Rightarrow> (Inr (get_state_coordinates s'), s'))"

definition reset_coordinates :: "env \<Rightarrow> nat \<Rightarrow> nat \<Rightarrow> (error + int list) \<times> env" where
  "reset_coordinates s ix iy =
     reset_internal_coordinates s (ALLOWED_OBSTACLE_X ! ix) (ALLOWED_OBSTACLE_Y ! iy) False"

definition step_coordinates ::
  "env \<Rightarrow> int \<Rightarrow> ((error + int list \<times> int \<times> bool \<times> info) \<times> env) option" where
  "step_coordinates s action =
     (case step s action of
        None \<Rightarrow> None
      | Some (Inl e, s') \<Rightarrow> Some (Inl e, s')
      | Some (Inr (r, d, i), s') \<Rightarrow> Some (Inr (get_state_coordinates s', r, d, i), s'))"

section \<open>JumpTaskEnvWithColors\<close>

definition reset_internal_colors ::
  "'a env_colors_scheme \<Rightarrow> int \<Rightarrow> int \<Rightarrow> bool \<Rightarrow> (error + unit) \<times> 'a env_colors_scheme" where
  "reset_internal_colors s obstacle_pos floor_h two_obs =
     reset_internal (s\<lparr>already_collided := False\<rparr>) obstacle_pos floor_h two_obs"

definition reset_colors ::
  "'a env_colors_scheme \<Rightarrow> nat \<Rightarrow> nat \<Rightarrow> (error + unit) \<times> 'a env_colors_scheme" where
  "reset_colors s ix iy =
     reset_internal_colors s (ALLOWED_OBSTACLE_X ! ix) (ALLOWED_OBSTACLE_Y ! iy) False"

definition game_status_colors ::
  "'a env_colors_scheme \<Rightarrow> (bool \<times> bool) \<times> 'a env_colors_scheme" where
  "game_status_colors s =
     (case game_status s of ((collided, success), s1) \<Rightarrow>
        (if obstacle_color s1 = GREEN
         then (let s2 = s1\<lparr>done_flag := success\<rparr>;
                   collided' = (\<not> already_collided s2 \<and> collided);
                   s3 = s2\<lparr>already_collided := (already_collided s2 \<or> collided')\<rparr>
               in ((collided', success), s3))
         else (let s2 = s1\<lparr>done_flag := (collided \<or> success)\<rparr>;
                   s3 = s2\<lparr>already_collided := (already_collided s2 \<or> collided)\<rparr>
               in ((collided, success), s3))))"

text \<open>
  \<open>info['collision']\<close> is read only when the agent is on the floor (Python's \<open>and\<close> does not
  evaluate its right operand otherwise); on the empty dictionary it raises KeyError.
\<close>

definition step_colors ::
  "'a env_colors_scheme \<Rightarrow> int
     \<Rightarrow> ((error + int \<times> bool \<times> info) \<times> 'a env_colors_scheme) option" where
  "step_colors s action =
     (case step_impl game_status_colors s action of
        None \<Rightarrow> None
      | Some (Inl e, s') \<Rightarrow> Some (Inl e, s')
      | Some (Inr (reward, d, info), s') \<Rightarrow>
          (if agent_pos_y s' = floor_height s'
           then (case info ''collision'' of
                   None \<Rightarrow> Some (Inl (KeyError ''collision''), s')
                 | Some c \<Rightarrow>
                     Some (Inr (if c then reward + rewards_collision s' else reward, d, info), s'))
           else Some (Inr (reward, d, info), s')))"

text \<open>
  The constructor: \<open>_obstacle_color\<close> is set first, the base constructor runs (its reset is
  the overriding \<open>_reset\<close>), then the collision reward and the flag are set.
\<close>

definition JumpTaskEnvWithColors :: "COLORS \<Rightarrow> kwargs \<Rightarrow> nat \<Rightarrow> nat \<Rightarrow> error + env_colors" where
  "JumpTaskEnvWithColors color kw ix iy =
     (case reset_colors
             (init_attrs kw True
                (env_colors.fields color 0 False)) ix iy of
        (Inl e, _) \<Rightarrow> Inl e
      | (Inr _, s) \<Rightarrow>
          Inr (s\<lparr>rewards_collision := (if obstacle_color s = GREEN then 100 else 0),
                 already_collided := False\<rparr>))"

section \<open>Running a sequence of actions\<close>

text \<open>
  A caller that applies the actions in turn and records, for each call, what \<open>step\<close> returned
  and the object after the call; it stops at the first exception.
\<close>

fun run_actions ::
  "('s \<Rightarrow> int \<Rightarrow> ((error + 'r) \<times> 's) option) \<Rightarrow> 's \<Rightarrow> int list
     \<Rightarrow> ((error + 'r) \<times> 's) list option" where
  "run_actions stp s [] = Some []"
| "run_actions stp s (a # as) =
     (case stp s a of
        None \<Rightarrow> None
      | Some (Inl e, s') \<Rightarrow> Some [(Inl e, s')]
      | Some (Inr r, s') \<Rightarrow> map_option ((#) (Inr r, s')) (run_actions stp s' as))"

section \<open>Concrete objects and auxiliary notions\<close>

text \<open>
  The object that \<open>JumpTaskEnv()\<close> builds when the reset of the constructor draws the
  obstacle position 30 and the floor height 10.
\<close>

definition default_env :: env where
  "default_env =
     \<lparr>rewards_life = - 1, rewards_exit = 100, scr_w = 60, scr_h = 60,
      state_shape = [60, 60], legal_actions = [0, 1], nb_actions = 2,
      agent_speed = 1, agent_current_speed = 1, jumping = (False, None),
      agent_init_pos = 0, agent_size = (5, 10), obstacle_size = (9, 10),
      step_id = 0, max_number_of_steps = 600, finish_jump = False,
      min_x_position = 14, max_x_position = 48, min_y_position = 0, max_y_position = 41,
      observation_space = \<lparr>box_low = Scalar 0, box_high = Scalar 1, box_shape = [60, 60]\<rparr>,
      agent_pos_x = 0, agent_pos_y = 10, done_flag = False, floor_height = 10,
      two_obstacles = False, obstacle_position = 30\<rparr>"

text \<open>The same with \<open>with_left_action=True\<close>.\<close>

definition left_env :: env where
  "left_env = default_env\<lparr>legal_actions := [0, 1, 2], nb_actions := 3\<rparr>"

text \<open>The object that \<open>JumpTaskEnvWithCoordinates()\<close> builds, same draws.\<close>

definition coordinates_env :: env where
  "coordinates_env =
     default_env\<lparr>state_shape := [3],
       observation_space :=
         \<lparr>box_low = Array [- 47, 0], box_high = Array [42, 16], box_shape = [2]\<rparr>\<rparr>"

text \<open>The object that \<open>JumpTaskEnvWithColors()\<close> builds (the default color is GREEN).\<close>

definition green_env :: env_colors where
  "green_env =
     \<lparr>rewards_life = - 1, rewards_exit = 100, scr_w = 60, scr_h = 60,
      state_shape = [60, 60, 3], legal_actions = [0, 1], nb_actions = 2,
      agent_speed = 1, agent_current_speed = 1, jumping = (False, None),
      agent_init_pos = 0, agent_size = (5, 10), obstacle_size = (9, 10),
      step_id = 0, max_number_of_steps = 600, finish_jump = False,
      min_x_position = 14, max_x_position = 48, min_y_position = 0, max_y_position = 41,
      observation_space =
        \<lparr>box_low = Scalar 0, box_high = Scalar 1, box_shape = [60, 60, 3]\<rparr>,
      agent_pos_x = 0, agent_pos_y = 10, done_flag = False, floor_height = 10,
      two_obstacles = False, obstacle_position = 30,
      obstacle_color = GREEN, rewards_collision = 100, already_collided = False\<rparr>"

text \<open>The attributes that \<open>step\<close> never writes have the same values in both objects.\<close>

definition same_config :: "'a env_scheme \<Rightarrow> 'a env_scheme \<Rightarrow> bool" where
  "same_config s t \<longleftrightarrow>
     rewards_life t = rewards_life s \<and> rewards_exit t = rewards_exit s
     \<and> scr_w t = scr_w s \<and> agent_size t = agent_size s \<and> obstacle_size t = obstacle_size s
     \<and> agent_speed t = agent_speed s \<and> legal_actions t = legal_actions s
     \<and> max_number_of_steps t = max_number_of_steps s \<and> finish_jump t = finish_jump s
     \<and> floor_height t = floor_height s \<and> two_obstacles t = two_obstacles s
     \<and> obstacle_position t = obstacle_position s"

section \<open>Evaluation and the concrete objects\<close>

declare finish_jump_loop.simps [code]

lemmas jump_consts = JUMP_HEIGHT_def JUMP_VERTICAL_SPEED_def JUMP_HORIZONTAL_SPEED_def
lemmas layout_consts = OBSTACLE_1_def OBSTACLE_2_def ALLOWED_OBSTACLE_X_def
  ALLOWED_OBSTACLE_Y_def LEFT_def RIGHT_def DOWN_def UP_def

lemma default_env_constructed: "JumpTaskEnv default_kwargs 1 0 = Inr default_env"
  by code_simp

lemma left_env_constructed:
  "JumpTaskEnv (default_kwargs\<lparr>kw_with_left_action := True\<rparr>) 1 0 = Inr left_env"
  by code_simp

lemma coordinates_env_constructed:
  "JumpTaskEnvWithCoordinates default_kwargs 1 0 = Inr coordinates_env"
  by code_simp

lemma green_env_constructed: "JumpTaskEnvWithColors GREEN default_kwargs 1 0 = Inr green_env"
  by code_simp

section \<open>The collision test\<close>

text \<open>
  For rectangles of positive size the test of \<open>_overlapping_objects\<close> says that the two
  half-open pixel rectangles have a pixel in common.
\<close>

lemma overlapping_objects_pixels:
  assumes "0 < fst (obstacle_size s)" "0 < snd (obstacle_size s)"
    "0 < fst (agent_size s)" "0 < snd (agent_size s)"
  shows "overlapping_objects s ox oy \<longleftrightarrow>
    (\<exists>x y. ox \<le> x \<and> x < ox + fst (obstacle_size s) \<and> oy \<le> y \<and> y < oy + snd (obstacle_size s)
          \<and> agent_pos_x s \<le> x \<and> x < agent_pos_x s + fst (agent_size s)
          \<and> agent_pos_y s \<le> y \<and> y < agent_pos_y s + snd (agent_size s))"
proof
  assume ov: "overlapping_objects s ox oy"
  let ?x = "max ox (agent_pos_x s)" and ?y = "max oy (agent_pos_y s)"
  from ov assms
  have "ox \<le> ?x \<and> ?x < ox + fst (obstacle_size s) \<and> oy \<le> ?y \<and> ?y < oy + snd (obstacle_size s)
          \<and> agent_pos_x s \<le> ?x \<and> ?x < agent_pos_x s + fst (agent_size s)
          \<and> agent_pos_y s \<le> ?y \<and> ?y < agent_pos_y s + snd (agent_size s)"
    by (simp add: overlapping_objects_def max_def)
  then show "\<exists>x y. ox \<le> x \<and> x < ox + fst (obstacle_size s)
          \<and> oy \<le> y \<and> y < oy + snd (obstacle_size s)
          \<and> agent_pos_x s \<le> x \<and> x < agent_pos_x s + fst (agent_size s)
          \<and> agent_pos_y s \<le> y \<and> y < agent_pos_y s + snd (agent_size s)"
    by blast
next
  assume "\<exists>x y. ox \<le> x \<and> x < ox + fst (obstacle_size s)
          \<and> oy \<le> y \<and> y < oy + snd (obstacle_size s)
          \<and> agent_pos_x s \<le> x \<and> x < agent_pos_x s + fst (agent_size s)
          \<and> agent_pos_y s \<le> y \<and> y < agent_pos_y s + snd (agent_size s)"
  then show "overlapping_objects s ox oy"
    by (auto simp: overlapping_objects_def)
qed

text \<open>
  Claim C4. The test that \<open>_game_status\<close> applies to the agent and an obstacle at \<open>(ox, oy)\<close>
  holds iff \<open>ox + w > agent.x\<close>, \<open>ox < agent.x + agent.w\<close>, \<open>oy + h > agent.y\<close> and
  \<open>oy < agent.y + agent.h\<close>; the failure flag is this test at \<open>(obstacle_position,
  floor_height)\<close>, or at the two fixed positions in the two-obstacle layout; and two
  rectangles that meet in an edge only (one ends where the other begins, on either axis) do
  not collide.
\<close>

theorem overlap_test:
  "(overlapping_objects s ox oy \<longleftrightarrow>
      ox + fst (obstacle_size s) > agent_pos_x s \<and> ox < agent_pos_x s + fst (agent_size s)
      \<and> oy + snd (obstacle_size s) > agent_pos_y s \<and> oy < agent_pos_y s + snd (agent_size s))
   \<and> (fst (fst (game_status s)) \<longleftrightarrow>
        (if two_obstacles s
         then overlapping_objects s OBSTACLE_1 (floor_height s)
              \<or> overlapping_objects s OBSTACLE_2 (floor_height s)
         else overlapping_objects s (obstacle_position s) (floor_height s)))
   \<and> (ox + fst (obstacle_size s) = agent_pos_x s \<or> agent_pos_x s + fst (agent_size s) = ox
        \<or> oy + snd (obstacle_size s) = agent_pos_y s \<or> agent_pos_y s + snd (agent_size s) = oy
       \<longrightarrow> \<not> overlapping_objects s ox oy)"
  by (auto simp: overlapping_objects_def game_status_def Let_def)

text \<open>
  With the agent at x = 25 its right edge is the obstacle's left edge (30): no collision;
  one pixel further there is one.
\<close>

theorem overlap_test_witness:
  "agent_pos_x (default_env\<lparr>agent_pos_x := 25\<rparr>)
       + fst (agent_size (default_env\<lparr>agent_pos_x := 25\<rparr>)) = 30
   \<and> \<not> overlapping_objects (default_env\<lparr>agent_pos_x := 25\<rparr>) 30 10
   \<and> \<not> fst (fst (game_status (default_env\<lparr>agent_pos_x := 25\<rparr>)))
   \<and> fst (fst (game_status (default_env\<lparr>agent_pos_x := 26\<rparr>)))"
  using overlap_test [of "default_env\<lparr>agent_pos_x := 25\<rparr>" 30 10]
    overlap_test [of "default_env\<lparr>agent_pos_x := 26\<rparr>" 30 10]
  by (simp add: default_env_def)

section \<open>The guards of \<open>step\<close>\<close>

text \<open>
  Claim C5. When \<open>step_id\<close> exceeds \<open>max_number_of_steps\<close>, \<open>JumpTaskEnv.step\<close> returns for
  every action value, legal or not: no exception, reward 0, terminal flag true, and the
  object is unchanged but for \<open>done\<close>, so the agent has not moved.
\<close>

theorem step_exhausted:
  "step_id s > max_number_of_steps s \<Longrightarrow>
     step s action = Some (Inr (0, True, Map.empty), s\<lparr>done_flag := True\<rparr>)"
  by (simp add: step_def step_impl_def)

theorem step_exhausted_witness:
  "step_id (default_env\<lparr>step_id := 601\<rparr>) > max_number_of_steps (default_env\<lparr>step_id := 601\<rparr>)
   \<and> step (default_env\<lparr>step_id := 601\<rparr>) 7
       = Some (Inr (0, True, Map.empty), default_env\<lparr>step_id := 601, done_flag := True\<rparr>)"
  using step_exhausted [of "default_env\<lparr>step_id := 601\<rparr>" 7]
  by (simp add: default_env_def)

text \<open>
  The overriding \<open>step\<close> of the color variant reads \<open>info['collision']\<close> from what the base
  method returned. In the exhausted branch that dictionary is empty, so with the agent on the
  floor the lookup raises.
\<close>

lemma step_colors_exhausted:
  "step_id s > max_number_of_steps s \<Longrightarrow>
     step_colors s action =
       (if agent_pos_y s = floor_height s
        then Some (Inl (KeyError ''collision''), s\<lparr>done_flag := True\<rparr>)
        else Some (Inr (0, True, Map.empty), s\<lparr>done_flag := True\<rparr>))"
  by (simp add: step_colors_def step_impl_def)

text \<open>
  Pressing left at the left wall changes nothing but the step counter, so 601 such steps
  lead from the fresh object to one whose counter exceeds the maximum.
\<close>

lemma left_idle_step:
  "k \<le> 600 \<Longrightarrow>
   step (left_env\<lparr>agent_current_speed := c, step_id := k\<rparr>) 2
     = Some (Inr (0, False, [''collision'' \<mapsto> False]),
             left_env\<lparr>agent_current_speed := 0, step_id := k + 1\<rparr>)"
  by (simp add: step_def step_impl_def apply_action_def game_status_def overlapping_objects_def
      step_reward_def left_env_def default_env_def)

lemma left_idle_run:
  "int k + int n \<le> 600 \<Longrightarrow>
   \<exists>xs. run_actions step (left_env\<lparr>agent_current_speed := c, step_id := int k\<rparr>)
           (replicate (Suc n) 2) = Some xs
        \<and> xs \<noteq> []
        \<and> snd (last xs) = left_env\<lparr>agent_current_speed := 0, step_id := int k + int n + 1\<rparr>"
proof (induction n arbitrary: k c)
  case 0
  then show ?case by (simp add: left_idle_step)
next
  case (Suc n)
  from Suc.prems have k: "int k \<le> 600" and "int (Suc k) + int n \<le> 600" by simp_all
  from Suc.IH [OF this(2), of 0] obtain xs where
    xs: "run_actions step (left_env\<lparr>agent_current_speed := 0, step_id := int (Suc k)\<rparr>)
           (replicate (Suc n) 2) = Some xs" "xs \<noteq> []"
       "snd (last xs) = left_env\<lparr>agent_current_speed := 0, step_id := int (Suc k) + int n + 1\<rparr>"
    by blast
  have "int k + 1 = int (Suc k)" by simp
  with left_idle_step [OF k, of c]
  have st: "step (left_env\<lparr>agent_current_speed := c, step_id := int k\<rparr>) 2
     = Some (Inr (0, False, [''collision'' \<mapsto> False]),
             left_env\<lparr>agent_current_speed := 0, step_id := int (Suc k)\<rparr>)" by simp
  have "run_actions step (left_env\<lparr>agent_current_speed := c, step_id := int k\<rparr>)
           (replicate (Suc (Suc n)) 2)
        = Some ((Inr (0, False, [''collision'' \<mapsto> False]),
             left_env\<lparr>agent_current_speed := 0, step_id := int (Suc k)\<rparr>) # xs)"
    using st xs(1) by (simp del: replicate.simps add: replicate_Suc [of "Suc n"])
  moreover have "int (Suc k) + int n + 1 = int k + int (Suc n) + 1" by simp
  ultimately show ?case using xs(2,3) by simp
qed

lemma left_run: "map_option (snd \<circ> last) (run_actions step left_env (replicate 601 2))
   = Some (left_env\<lparr>agent_current_speed := 0, step_id := 601\<rparr>)"
proof -
  have e: "left_env = left_env\<lparr>agent_current_speed := 1, step_id := int 0\<rparr>"
    by (simp add: left_env_def default_env_def)
  have n: "(601::nat) = Suc 600" by simp
  from left_idle_run [of 0 600 1] obtain xs where
    "run_actions step (left_env\<lparr>agent_current_speed := 1, step_id := int 0\<rparr>)
           (replicate (Suc 600) 2) = Some xs" "xs \<noteq> []"
    "snd (last xs) = left_env\<lparr>agent_current_speed := 0, step_id := int 0 + int 600 + 1\<rparr>"
    by auto
  then show ?thesis unfolding n using e by simp
qed


text \<open>
  Counterexample to claim C6 as stated. After 601 left actions at the wall the episode is
  not terminal and \<open>step_id\<close> is 601. The action 3 is illegal there, yet \<open>step\<close> raises nothing:
  the exhaustion test comes first, returns reward 0 and sets \<open>done\<close>.
\<close>

theorem illegal_action_counterexample:
  "map_option (snd \<circ> last) (run_actions step left_env (replicate 601 2))
     = Some (left_env\<lparr>agent_current_speed := 0, step_id := 601\<rparr>)
   \<and> 3 \<notin> set (legal_actions (left_env\<lparr>agent_current_speed := 0, step_id := 601\<rparr>))
   \<and> step (left_env\<lparr>agent_current_speed := 0, step_id := 601\<rparr>) 3
       = Some (Inr (0, True, Map.empty),
               left_env\<lparr>agent_current_speed := 0, step_id := 601, done_flag := True\<rparr>)"
  using left_run by (simp add: step_def step_impl_def left_env_def default_env_def)

text \<open>
  Claim C6, amended. In every state whose \<open>step_id\<close> does not exceed \<open>max_number_of_steps\<close>, a
  \<open>step\<close> call with an action outside \<open>legal_actions\<close> raises ValueError and leaves the object
  unchanged.
\<close>

theorem illegal_action_rejected:
  "step_id s \<le> max_number_of_steps s \<Longrightarrow> action \<notin> set (legal_actions s) \<Longrightarrow>
     step s action = Some (Inl (ValueError UnrecognizedAction), s)"
  by (simp add: step_def step_impl_def)

theorem illegal_action_rejected_witness:
  "step_id default_env \<le> max_number_of_steps default_env
   \<and> 2 \<notin> set (legal_actions default_env)
   \<and> step default_env 2 = Some (Inl (ValueError UnrecognizedAction), default_env)"
  using illegal_action_rejected [of default_env 2]
  by (simp add: default_env_def)

text \<open>The legal actions of a constructed object are 0 and 1, and 2 with the left action.\<close>

lemma legal_actions_constructed:
  "JumpTaskEnv kw ix iy = Inr s \<Longrightarrow>
     legal_actions s = (if kw_with_left_action kw then [0, 1, 2] else [0, 1])"
  by (auto simp: JumpTaskEnv_def reset_def reset_internal_def init_attrs_def Let_def
      split: if_splits)

section \<open>The terminal flag and \<open>step\<close>\<close>

text \<open>
  Counterexample to claim C1 as stated. Walking right 26 times from the fresh default object
  puts the agent at x = 26, where it overlaps the obstacle at 30: the episode is terminal.
  One more legal step moves the agent to x = 27.
\<close>

theorem step_after_terminal_counterexample:
  "map_option (snd \<circ> last) (run_actions step default_env (replicate 26 0))
     = Some (default_env\<lparr>agent_pos_x := 26, step_id := 26, done_flag := True\<rparr>)
   \<and> 0 \<in> set (legal_actions (default_env\<lparr>agent_pos_x := 26, step_id := 26, done_flag := True\<rparr>))
   \<and> map_option (\<lambda>(r, s'). (agent_pos_x s', agent_pos_y s'))
        (step (default_env\<lparr>agent_pos_x := 26, step_id := 26, done_flag := True\<rparr>) 0)
     = Some (27, 10)"
  by code_simp

lemma game_status_done_irrelevant: "game_status (s\<lparr>done_flag := b\<rparr>) = game_status s"
  by (simp add: game_status_def overlapping_objects_def)

lemma apply_action_done:
  "apply_action (s\<lparr>done_flag := b\<rparr>) a = (apply_action s a)\<lparr>done_flag := b\<rparr>"
  by (simp add: apply_action_def continue_jump_def Let_def)

lemma step_done_irrelevant:
  "step_id s \<le> max_number_of_steps s \<Longrightarrow> a \<in> set (legal_actions s) \<Longrightarrow>
     step (s\<lparr>done_flag := b\<rparr>) a = step s a"
  by (simp add: step_def step_impl_def apply_action_done game_status_done_irrelevant)

text \<open>
  Claim C1, amended. In a state whose terminal flag is true, a \<open>step\<close> call leaves the object,
  and so the agent position, unchanged when \<open>step_id\<close> exceeds \<open>max_number_of_steps\<close>;
  otherwise \<open>step\<close> does not read the flag: with a legal action it does exactly what it does
  from the same state with the flag false.
\<close>

theorem step_after_terminal:
  "done_flag s \<Longrightarrow>
     (step_id s > max_number_of_steps s \<longrightarrow>
        step s a = Some (Inr (0, True, Map.empty), s))
     \<and> (step_id s \<le> max_number_of_steps s \<and> a \<in> set (legal_actions s) \<longrightarrow>
        step s a = step (s\<lparr>done_flag := False\<rparr>) a)"
proof (intro conjI impI)
  assume d: "done_flag s" and "step_id s > max_number_of_steps s"
  moreover from d have "s\<lparr>done_flag := True\<rparr> = s" by simp
  ultimately show "step s a = Some (Inr (0, True, Map.empty), s)"
    by (simp add: step_def step_impl_def)
next
  assume "step_id s \<le> max_number_of_steps s \<and> a \<in> set (legal_actions s)"
  then show "step s a = step (s\<lparr>done_flag := False\<rparr>) a"
    by (simp add: step_done_irrelevant)
qed

theorem step_after_terminal_witness:
  "done_flag (default_env\<lparr>step_id := 601, done_flag := True\<rparr>)
   \<and> step_id (default_env\<lparr>step_id := 601, done_flag := True\<rparr>)
       > max_number_of_steps (default_env\<lparr>step_id := 601, done_flag := True\<rparr>)
   \<and> step (default_env\<lparr>step_id := 601, done_flag := True\<rparr>) 0
       = Some (Inr (0, True, Map.empty), default_env\<lparr>step_id := 601, done_flag := True\<rparr>)
   \<and> done_flag (default_env\<lparr>agent_pos_x := 26, step_id := 26, done_flag := True\<rparr>)
   \<and> step_id (default_env\<lparr>agent_pos_x := 26, step_id := 26, done_flag := True\<rparr>)
       \<le> max_number_of_steps (default_env\<lparr>agent_pos_x := 26, step_id := 26, done_flag := True\<rparr>)
   \<and> 0 \<in> set (legal_actions (default_env\<lparr>agent_pos_x := 26, step_id := 26, done_flag := True\<rparr>))
   \<and> step (default_env\<lparr>agent_pos_x := 26, step_id := 26, done_flag := True\<rparr>) 0
       = step (default_env\<lparr>agent_pos_x := 26, step_id := 26, done_flag := False\<rparr>) 0"
  using step_after_terminal [of "default_env\<lparr>step_id := 601, done_flag := True\<rparr>" 0]
    step_after_terminal [of "default_env\<lparr>agent_pos_x := 26, step_id := 26, done_flag := True\<rparr>" 0]
  by (simp add: default_env_def)

section \<open>The jump trajectory\<close>

text \<open>
  Counterexample to claim C2 as stated. From the fresh default object (x = 0, floor height
  10) sixteen jump actions take the agent to y = 26, above 25, and leave it there: it has
  not come back to 10.
\<close>

theorem jump_only_counterexample:
  "map_option (\<lambda>rs. (map (agent_pos_y \<circ> snd) rs,
                      list_all (\<lambda>y. y \<le> 25) (map (agent_pos_y \<circ> snd) rs),
                      agent_pos_y (snd (last rs)) = 10))
     (run_actions step default_env (replicate 16 1))
   = Some ([11, 12, 13, 14, 15, 16, 17, 18, 19, 20, 21, 22, 23, 24, 25, 26], False, False)"
  by code_simp

text \<open>
  Claim C2, amended. Under the default configuration with floor height 10 and the agent
  starting at x = 0, for each of the three obstacle positions a reset can draw, the agent's
  y rises by one per tick to 26 (the first value that exceeds 10 + 15) during the first
  sixteen jump actions, and sixteen more bring it back to 10, where the jump ends; y never
  exceeds 26.
\<close>

theorem jump_only_trajectory:
  "map_option (map (agent_pos_y \<circ> snd)) (run_actions step default_env (replicate 32 1))
     = Some ([11, 12, 13, 14, 15, 16, 17, 18, 19, 20, 21, 22, 23, 24, 25, 26]
             @ [25, 24, 23, 22, 21, 20, 19, 18, 17, 16, 15, 14, 13, 12, 11, 10])
   \<and> map_option (map (agent_pos_y \<circ> snd))
        (run_actions step (default_env\<lparr>obstacle_position := 20\<rparr>) (replicate 32 1))
     = Some ([11, 12, 13, 14, 15, 16, 17, 18, 19, 20, 21, 22, 23, 24, 25, 26]
             @ [25, 24, 23, 22, 21, 20, 19, 18, 17, 16, 15, 14, 13, 12, 11, 10])
   \<and> map_option (map (agent_pos_y \<circ> snd))
        (run_actions step (default_env\<lparr>obstacle_position := 40\<rparr>) (replicate 32 1))
     = Some ([11, 12, 13, 14, 15, 16, 17, 18, 19, 20, 21, 22, 23, 24, 25, 26]
             @ [25, 24, 23, 22, 21, 20, 19, 18, 17, 16, 15, 14, 13, 12, 11, 10])
   \<and> map_option (jumping \<circ> snd \<circ> last) (run_actions step default_env (replicate 32 1))
     = Some (False, Some Down)"
  by code_simp

section \<open>Explicit reset\<close>

lemma walk5:
  "map_option (snd \<circ> last) (run_actions step default_env (replicate 5 0))
     = Some (default_env\<lparr>agent_pos_x := 5, step_id := 5\<rparr>)"
  by code_simp

text \<open>
  Counterexample to claim C7 as stated. After five steps to the right the agent is at x = 5
  and \<open>step_id\<close> is 5. An explicit reset with obstacle position 100 raises ValueError, and
  the object it leaves is the freshly reset one: agent back at x = 0, counter 0.
\<close>

theorem reset_out_of_range_counterexample:
  "map_option (snd \<circ> last) (run_actions step default_env (replicate 5 0))
     = Some (default_env\<lparr>agent_pos_x := 5, step_id := 5\<rparr>)
   \<and> reset_internal (default_env\<lparr>agent_pos_x := 5, step_id := 5\<rparr>) 100 10 False
       = (Inl (ValueError ObstacleXRange), default_env)
   \<and> default_env \<noteq> default_env\<lparr>agent_pos_x := 5, step_id := 5\<rparr>"
  using walk5 by (simp add: reset_internal_def default_env_def jump_consts)

text \<open>
  Claim C7, amended. An explicit single-obstacle reset whose obstacle position lies outside
  \<open>[min_x, max_x)\<close> or whose floor height lies outside \<open>[min_y, max_y)\<close> raises ValueError
  (for the obstacle position if that is out of range, else for the floor height). It leaves
  \<open>obstacle_position\<close> and the configuration as they were, but the agent position, the
  horizontal speed, the jump phase, the step counter, the terminal flag, the floor height and
  the layout flag have been assigned their values for the new episode before the check.
\<close>

theorem reset_out_of_range:
  "obstacle_pos < min_x_position s \<or> obstacle_pos \<ge> max_x_position s
     \<or> floor_h < min_y_position s \<or> floor_h \<ge> max_y_position s \<Longrightarrow>
   reset_internal s obstacle_pos floor_h False =
     (Inl (ValueError (if obstacle_pos < min_x_position s \<or> obstacle_pos \<ge> max_x_position s
                       then ObstacleXRange else FloorHeightRange)),
      s\<lparr>agent_pos_x := agent_init_pos s,
        agent_pos_y := floor_h,
        agent_current_speed := agent_speed s * JUMP_HORIZONTAL_SPEED,
        jumping := (False, None),
        step_id := 0,
        done_flag := False,
        floor_height := floor_h,
        two_obstacles := False\<rparr>)"
  by (auto simp: reset_internal_def Let_def)

theorem reset_out_of_range_witness:
  "(100 < min_x_position (default_env\<lparr>agent_pos_x := 5, step_id := 5\<rparr>)
      \<or> 100 \<ge> max_x_position (default_env\<lparr>agent_pos_x := 5, step_id := 5\<rparr>)
      \<or> 20 < min_y_position (default_env\<lparr>agent_pos_x := 5, step_id := 5\<rparr>)
      \<or> 20 \<ge> max_y_position (default_env\<lparr>agent_pos_x := 5, step_id := 5\<rparr>))
   \<and> reset_internal (default_env\<lparr>agent_pos_x := 5, step_id := 5\<rparr>) 100 20 False
       = (Inl (ValueError ObstacleXRange), default_env\<lparr>agent_pos_y := 20, floor_height := 20\<rparr>)"
  using reset_out_of_range [of 100 "default_env\<lparr>agent_pos_x := 5, step_id := 5\<rparr>" 20]
  by (simp add: default_env_def jump_consts)

section \<open>The constructor and the two-obstacle layout\<close>

lemma constructor_ignores_layout_kwargs:
  "JumpTaskEnv (kw\<lparr>kw_two_obstacles := b, kw_floor_height := f, kw_obstacle_position := p\<rparr>) ix iy
     = JumpTaskEnv kw ix iy"
  by (simp add: JumpTaskEnv_def init_attrs_def)

lemma reset_single_obstacle: "two_obstacles (snd (reset s ix iy)) = False"
  by (simp add: reset_def reset_internal_def Let_def)

text \<open>
  Claim C9 fails on the code. \<open>JumpTaskEnv(two_obstacles=True)\<close> builds the same object as
  \<open>JumpTaskEnv()\<close>: the layout flag is false and one obstacle stands at the drawn position;
  a later \<open>reset()\<close> keeps the single-obstacle layout.
\<close>

theorem two_obstacles_kwarg_ignored:
  "JumpTaskEnv (default_kwargs\<lparr>kw_two_obstacles := True\<rparr>) 1 0 = Inr default_env
   \<and> two_obstacles default_env = False
   \<and> obstacle_position default_env = 30
   \<and> reset default_env 0 1
       = (Inr (), default_env\<lparr>agent_pos_y := 20, floor_height := 20, obstacle_position := 20\<rparr>)
   \<and> two_obstacles (snd (reset default_env 0 1)) = False"
  by code_simp

section \<open>The coordinate observation\<close>

lemma get_state_coordinates_length: "length (get_state_coordinates s) = 2"
  by (simp add: get_state_coordinates_def)

lemma reset_coordinates_observation:
  "reset_internal_coordinates s p f t = (Inr obs, s') \<Longrightarrow>
     obs = [agent_pos_x s' - obstacle_position s', agent_pos_y s' - floor_height s']"
  by (auto simp: reset_internal_coordinates_def get_state_coordinates_def
      split: prod.splits sum.splits)

lemma step_coordinates_observation:
  "step_coordinates s a = Some (Inr (obs, r, d, i), s') \<Longrightarrow>
     obs = [agent_pos_x s' - obstacle_position s', agent_pos_y s' - floor_height s']"
  by (auto simp: step_coordinates_def get_state_coordinates_def
      split: option.splits prod.splits sum.splits)

text \<open>
  Claim C10 fails on the code. The observations of \<open>reset\<close> and \<open>step\<close> are the two-element
  vector \<open>(agent.x - obstacle.x, agent.y - floor_height)\<close>, as the two lemmas above say, and
  the Box is built from two-element bounds; but the constructor declares
  \<open>state_shape = (3,)\<close>.
\<close>

theorem coordinates_shape_mismatch:
  "JumpTaskEnvWithCoordinates default_kwargs 1 0 = Inr coordinates_env
   \<and> state_shape coordinates_env = [3]
   \<and> box_shape (observation_space coordinates_env) = [2]
   \<and> reset_coordinates coordinates_env 1 0 = (Inr [- 30, 0], coordinates_env)
   \<and> map_option fst (step_coordinates coordinates_env 0)
       = Some (Inr ([- 29, 0], 1, False, [''collision'' \<mapsto> False]))
   \<and> [length [- 30, 0 :: int]] \<noteq> state_shape coordinates_env"
  using coordinates_env_constructed
  by (simp add: coordinates_env_def default_env_def reset_coordinates_def
      reset_internal_coordinates_def reset_internal_def get_state_coordinates_def
      step_coordinates_def step_def step_impl_def apply_action_def game_status_def
      overlapping_objects_def step_reward_def layout_consts jump_consts)

section \<open>The loop of \<open>finish_jump\<close> mode\<close>

text \<open>
  An invariant of the loop body that holds when the loop is entered holds when it returns,
  and the loop condition is then false.
\<close>

lemma finish_jump_loop_rule:
  assumes ret: "finish_jump_loop gs s ke = Some (ke', s')"
    and init: "I ke s"
    and body: "\<And>s ke. I ke s \<Longrightarrow> fst (jumping s) \<Longrightarrow> \<not> fst ke \<Longrightarrow> \<not> snd ke
                 \<Longrightarrow> I (fst (gs (continue_jump s))) (snd (gs (continue_jump s)))"
  shows "I ke' s' \<and> \<not> (fst (jumping s') \<and> \<not> fst ke' \<and> \<not> snd ke')"
proof -
  have "gs = gs \<longrightarrow> I ke s \<longrightarrow> I (fst (ke', s')) (snd (ke', s'))
          \<and> \<not> (fst (jumping (snd (ke', s'))) \<and> \<not> fst (fst (ke', s')) \<and> \<not> snd (fst (ke', s')))"
  proof (rule finish_jump_loop.raw_induct
      [where P = "\<lambda>g s ke r. g = gs \<longrightarrow> I ke s \<longrightarrow> I (fst r) (snd r)
          \<and> \<not> (fst (jumping (snd r)) \<and> \<not> fst (fst r) \<and> \<not> snd (fst r))", OF _ ret])
    fix f g s ke r
    assume IH: "\<And>g s ke r. f g s ke = Some r \<Longrightarrow> g = gs \<longrightarrow> I ke s \<longrightarrow> I (fst r) (snd r)
          \<and> \<not> (fst (jumping (snd r)) \<and> \<not> fst (fst r) \<and> \<not> snd (fst r))"
      and eq: "(if fst (jumping s) \<and> \<not> fst ke \<and> \<not> snd ke
           then case g (continue_jump s) of (ke', s') \<Rightarrow> f g s' ke'
           else Some (ke, s)) = Some r"
    show "g = gs \<longrightarrow> I ke s \<longrightarrow> I (fst r) (snd r)
          \<and> \<not> (fst (jumping (snd r)) \<and> \<not> fst (fst r) \<and> \<not> snd (fst r))"
    proof (intro impI)
      assume g: "g = gs" and I: "I ke s"
      show "I (fst r) (snd r) \<and> \<not> (fst (jumping (snd r)) \<and> \<not> fst (fst r) \<and> \<not> snd (fst r))"
      proof (cases "fst (jumping s) \<and> \<not> fst ke \<and> \<not> snd ke")
        case True
        with eq g have call: "f gs (snd (gs (continue_jump s))) (fst (gs (continue_jump s))) = Some r"
          by (simp add: case_prod_beta)
        from True I have "I (fst (gs (continue_jump s))) (snd (gs (continue_jump s)))"
          by (simp add: body)
        with IH [OF call] show ?thesis by simp
      next
        case False
        with eq have "r = (ke, s)" by auto
        with False I show ?thesis by auto
      qed
    qed
  qed
  with init show ?thesis by simp
qed

lemma same_config_refl: "same_config s s"
  by (simp add: same_config_def)

lemma same_config_continue_jump: "same_config s t \<Longrightarrow> same_config s (continue_jump t)"
  by (simp add: same_config_def continue_jump_def Let_def)

lemma same_config_game_status: "same_config s t \<Longrightarrow> same_config s (snd (game_status t))"
  by (simp add: same_config_def game_status_def Let_def)

lemma same_config_apply_action: "same_config s (apply_action s a)"
  by (simp add: same_config_def apply_action_def continue_jump_def Let_def)

lemma game_status_idem: "fst (game_status (snd (game_status t))) = fst (game_status t)"
  by (simp add: game_status_def overlapping_objects_def Let_def)

lemma game_status_same_config_step_id:
  "fst (game_status (t\<lparr>step_id := k\<rparr>)) = fst (game_status t)"
  by (simp add: game_status_def overlapping_objects_def Let_def)

lemma base_loop:
  assumes ret: "finish_jump_loop game_status t ke = Some (ke', t')"
    and "same_config s t" "ke = fst (game_status t)"
  shows "same_config s t' \<and> ke' = fst (game_status t')"
proof -
  have "(same_config s t' \<and> ke' = fst (game_status t'))
        \<and> \<not> (fst (jumping t') \<and> \<not> fst ke' \<and> \<not> snd ke')"
    by (rule finish_jump_loop_rule
          [where I = "\<lambda>ke t. same_config s t \<and> ke = fst (game_status t)", OF ret])
       (simp_all add: assms same_config_game_status same_config_continue_jump game_status_idem)
  then show ?thesis by simp
qed

lemma step_result:
  assumes ok: "step_id s \<le> max_number_of_steps s" "a \<in> set (legal_actions s)"
    and ret: "step s a = Some (res, s')"
  shows "\<exists>t. same_config s t
      \<and> s' = t\<lparr>step_id := step_id t + 1\<rparr>
      \<and> res = Inr (step_reward t (- agent_pos_x s) (fst (fst (game_status t))) (snd (fst (game_status t))),
                   done_flag t, [''collision'' \<mapsto> fst (fst (game_status t))])"
proof -
  let ?s1 = "apply_action s a"
  let ?g = "game_status ?s1"
  have c2: "same_config s (snd ?g)"
    by (simp add: same_config_game_status same_config_apply_action)
  have k2: "fst ?g = fst (game_status (snd ?g))" by (simp add: game_status_idem)
  from c2 have fj: "finish_jump (snd ?g) = finish_jump s" by (simp add: same_config_def)
  obtain ke' t where loop:
    "(if finish_jump s then finish_jump_loop game_status (snd ?g) (fst ?g) else Some (fst ?g, snd ?g))
       = Some (ke', t)"
    using ret ok fj
    by (auto simp: step_def step_impl_def case_prod_beta split: option.splits)
  have t: "same_config s t \<and> ke' = fst (game_status t)"
  proof (cases "finish_jump s")
    case True
    with loop have "finish_jump_loop game_status (snd ?g) (fst ?g) = Some (ke', t)" by simp
    from base_loop [OF this c2 k2] show ?thesis .
  next
    case False
    with loop c2 k2 show ?thesis by auto
  qed
  from ret ok fj loop have "s' = t\<lparr>step_id := step_id t + 1\<rparr>"
    and "res = Inr (step_reward t (- agent_pos_x s) (fst ke') (snd ke'),
                   done_flag t, [''collision'' \<mapsto> fst ke'])"
    by (auto simp: step_def step_impl_def case_prod_beta Let_def split: option.splits)
  with t show ?thesis by auto
qed


end
